theory Spec2Isabelle
  imports Main "HOL-Library.AList"
begin

section \<open>Python values\<close>

text \<open>
  The client (\<^verbatim>\<open>sdks/python/hse_digital/client.py\<close>) is dynamically typed: what
  \<^verbatim>\<open>response.json()\<close> returns, what is stored in \<^verbatim>\<open>self.access_token\<close> and what an
  exception carries as its message are Python values. They are modelled by one datatype,
  the values a JSON document decodes to. \<open>JNull\<close> is Python's \<^verbatim>\<open>None\<close>, so an absent
  token is \<open>JNull\<close>. A \<open>JObj\<close> is a \<^verbatim>\<open>dict\<close> given as the list of its items (keys
  distinct, as in a dict); numbers are integers.
\<close>

datatype json =
    JNull
  | JBool bool
  | JInt int
  | JStr string
  | JList "json list"
  | JObj "(string \<times> json) list"

type_synonym dict = "(string \<times> json) list"

text \<open>Python truthiness, as used by \<^verbatim>\<open>if self.refresh_token:\<close>.\<close>

fun truthy :: "json \<Rightarrow> bool" where
  "truthy JNull = False"
| "truthy (JBool b) = b"
| "truthy (JInt n) = (n \<noteq> 0)"
| "truthy (JStr s) = (s \<noteq> [])"
| "truthy (JList xs) = (xs \<noteq> [])"
| "truthy (JObj kvs) = (kvs \<noteq> [])"

section \<open>Exceptions (exceptions.py)\<close>

text \<open>
  \<^verbatim>\<open>HSEAPIError(message, status_code=None, details=None)\<close> and its five subclasses
  differ only in their class; the class is the \<open>kind\<close>, with \<open>Generic\<close> for the base
  class \<^verbatim>\<open>HSEAPIError\<close> itself. The built-in exceptions that the client's own
  subscripting and attribute access can raise are the other constructors.
\<close>

datatype kind = Authentication | Validation | NotFound | RateLimit | Server | Generic

datatype error =
    HSEAPIError (kind: kind) (message: json) (status: "int option") (details: json)
  | KeyError string
  | TypeError
  | AttributeError

text \<open>\<^verbatim>\<open>d.get(k, default)\<close>: only a dict has \<^verbatim>\<open>get\<close>.\<close>

fun py_get :: "json \<Rightarrow> string \<Rightarrow> json \<Rightarrow> error + json" where
  "py_get (JObj kvs) k d = Inr (case map_of kvs k of None \<Rightarrow> d | Some v \<Rightarrow> v)"
| "py_get _ k d = Inl AttributeError"

text \<open>\<^verbatim>\<open>d[k]\<close> with a string key: \<^verbatim>\<open>KeyError\<close> on a dict without the key,
  \<^verbatim>\<open>TypeError\<close> on every other value (\<^verbatim>\<open>None\<close>, a list, a string, a number).\<close>

fun py_getitem :: "json \<Rightarrow> string \<Rightarrow> error + json" where
  "py_getitem (JObj kvs) k = (case map_of kvs k of None \<Rightarrow> Inl (KeyError k) | Some v \<Rightarrow> Inr v)"
| "py_getitem _ k = Inl TypeError"

section \<open>Requests, responses and the remote side\<close>

text \<open>
  A header value is either a literal string or the f-string \<^verbatim>\<open>f"Bearer {v}"\<close>, kept
  with the value it interpolates. For a \<^verbatim>\<open>str\<close> the f-string is the concatenation;
  the \<^verbatim>\<open>str()\<close> of the other Python values is not spelled out.
\<close>

datatype header_value = Literal string | Bearer json

fun header_text :: "header_value \<Rightarrow> string option" where
  "header_text (Literal s) = Some s"
| "header_text (Bearer (JStr t)) = Some (''Bearer '' @ t)"
| "header_text (Bearer _) = None"

record http_request =
  http_method :: string
  url :: string
  json_data :: "dict option"
  params :: "dict option"
  headers :: "(string \<times> header_value) list"
  req_timeout :: int

text \<open>
  What the client reads of a \<^verbatim>\<open>requests.Response\<close>: \<open>status_code\<close>,
  \<open>response_text\<close> for \<^verbatim>\<open>response.text\<close> (\<^verbatim>\<open>response.content\<close> is empty
  exactly when the text is) and the outcome of
  \<^verbatim>\<open>response.json()\<close>: \<open>Inr v\<close> when the body decodes to \<open>v\<close>, \<open>Inl msg\<close> when it
  raises the decode error whose \<^verbatim>\<open>str()\<close> is \<open>msg\<close>.
\<close>

record response =
  status_code :: int
  response_text :: string
  json_body :: "string + json"

text \<open>
  \<^verbatim>\<open>Response.ok\<close> belongs to the \<^verbatim>\<open>requests\<close> library: it is false exactly when
  \<^verbatim>\<open>raise_for_status()\<close> raises, which it does for \<^verbatim>\<open>400 <= status_code < 600\<close>.
\<close>

definition ok :: "response \<Rightarrow> bool" where
  "ok r = (\<not> (400 \<le> status_code r \<and> status_code r < 600))"

text \<open>
  \<^verbatim>\<open>session.request(...)\<close> either returns a response or raises a
  \<^verbatim>\<open>requests.exceptions.RequestException\<close> (with its \<^verbatim>\<open>str()\<close>). The remote side is
  any deterministic transition function on a state \<open>'w\<close> of its own. The session that
  \<^verbatim>\<open>__init__\<close> builds retries the statuses 429, 500, 502, 503 and 504 and, when they
  persist, raises a \<^verbatim>\<open>RetryError\<close>, which is a \<^verbatim>\<open>RequestException\<close>: with that session
  these five statuses reach \<^verbatim>\<open>_request\<close> as an exception, every other status as a
  response.
\<close>

datatype outcome = Response response | RequestException string

type_synonym 'w transport = "http_request \<Rightarrow> 'w \<Rightarrow> outcome \<times> 'w"

section \<open>The client (client.py)\<close>

datatype AuthTokens = AuthTokens (tokens_access: json) (tokens_refresh: json)

text \<open>
  The fields of \<^verbatim>\<open>HSEClient\<close> that the methods read, and what a call leaves behind
  outside the object: \<open>notified\<close> lists the token pairs the \<^verbatim>\<open>on_token_refresh\<close>
  callback was called with (the callback is taken to return normally), \<open>sent\<close> lists the
  requests handed to \<^verbatim>\<open>session.request\<close>, in order, and \<open>world\<close> is the state of the
  remote side. \<open>on_token_refresh\<close> says whether a callback is registered.
  \<^verbatim>\<open>retry_delay\<close> and the session with its retry adapter configure what happens beneath
  \<^verbatim>\<open>session.request\<close> and have no counterpart here.
\<close>

record 'w client =
  base_url :: string
  access_token :: json
  refresh_token :: json
  timeout :: int
  max_retries :: int
  on_token_refresh :: bool
  notified :: "AuthTokens list"
  sent :: "http_request list"
  world :: 'w

text \<open>\<^verbatim>\<open>base_url.rstrip("/")\<close>\<close>

definition rstrip_slash :: "string \<Rightarrow> string" where
  "rstrip_slash s = rev (dropWhile (\<lambda>c. c = CHR ''/'') (rev s))"

text \<open>\<^verbatim>\<open>__init__\<close>: the initial access token is an optional string; the refresh token
  always starts as \<^verbatim>\<open>None\<close>.\<close>

definition init :: "string \<Rightarrow> string option \<Rightarrow> int \<Rightarrow> int \<Rightarrow> bool \<Rightarrow> 'w \<Rightarrow> 'w client" where
  "init base_url' access_token' timeout' max_retries' on_token_refresh' w =
     \<lparr> base_url = rstrip_slash base_url',
       access_token = (case access_token' of None \<Rightarrow> JNull | Some a \<Rightarrow> JStr a),
       refresh_token = JNull,
       timeout = timeout',
       max_retries = max_retries',
       on_token_refresh = on_token_refresh',
       notified = [],
       sent = [],
       world = w \<rparr>"

definition get_headers :: "'w client \<Rightarrow> (string \<times> header_value) list" where
  "get_headers s =
     (let headers = [(''Content-Type'', Literal ''application/json'')]
      in if truthy (access_token s)
         then headers @ [(''Authorization'', Bearer (access_token s))]
         else headers)"

definition handle_error :: "response \<Rightarrow> error" where
  "handle_error response =
     (let fallback =
            (if response_text response \<noteq> [] then JStr (response_text response)
             else JStr ''Unknown error'', JNull);
          (error_message, details) =
            (case json_body response of
               Inl _ \<Rightarrow> fallback
             | Inr error_data \<Rightarrow>
                 (case py_get error_data ''error'' (JStr ''Unknown error'') of
                    Inl _ \<Rightarrow> fallback
                  | Inr m \<Rightarrow>
                      (case py_get error_data ''details'' JNull of
                         Inl _ \<Rightarrow> fallback
                       | Inr d \<Rightarrow> (m, d))))
      in if status_code response = 401 then
           HSEAPIError Authentication error_message (Some (status_code response)) details
         else if status_code response = 400 then
           HSEAPIError Validation error_message (Some (status_code response)) details
         else if status_code response = 404 then
           HSEAPIError NotFound error_message (Some (status_code response)) details
         else if status_code response = 429 then
           HSEAPIError RateLimit error_message (Some (status_code response)) details
         else if status_code response \<ge> 500 then
           HSEAPIError Server error_message (Some (status_code response)) details
         else
           HSEAPIError Generic error_message (Some (status_code response)) details)"

definition set_tokens :: "AuthTokens \<Rightarrow> 'w client \<Rightarrow> 'w client" where
  "set_tokens tokens s =
     (let s1 = s\<lparr> access_token := tokens_access tokens, refresh_token := tokens_refresh tokens \<rparr>
      in if on_token_refresh s1 then s1\<lparr> notified := notified s1 @ [tokens] \<rparr> else s1)"

definition clear_tokens :: "'w client \<Rightarrow> 'w client" where
  "clear_tokens s = s\<lparr> access_token := JNull, refresh_token := JNull \<rparr>"

text \<open>One call of \<^verbatim>\<open>self.session.request\<close>: the request is logged and the remote side
  moves on.\<close>

definition session_request :: "'w transport \<Rightarrow> http_request \<Rightarrow> 'w client \<Rightarrow> outcome \<times> 'w client" where
  "session_request srv rq s =
     (case srv rq (world s) of (out, w') \<Rightarrow> (out, s\<lparr> sent := sent s @ [rq], world := w' \<rparr>))"

text \<open>\<^verbatim>\<open>HSEAPIError(f"Request failed: {str(e)}")\<close>\<close>

definition request_failed :: "string \<Rightarrow> error" where
  "request_failed e = HSEAPIError Generic (JStr (''Request failed: '' @ e)) None JNull"

text \<open>
  Lines 122 to 128 of \<^verbatim>\<open>_request\<close>, after the response to use is fixed. The decode
  error of \<^verbatim>\<open>response.json()\<close> is a \<^verbatim>\<open>RequestException\<close> (requests 2.27 and later), so
  the enclosing handler wraps it like a transport failure.
\<close>

definition finish :: "response \<Rightarrow> error + json" where
  "finish response =
     (if \<not> ok response then Inl (handle_error response)
      else if status_code response = 204 \<or> response_text response = [] then Inr JNull
      else (case json_body response of
              Inl e \<Rightarrow> Inl (request_failed e)
            | Inr v \<Rightarrow> Inr v))"

definition mk_request :: "'w client \<Rightarrow> string \<Rightarrow> string \<Rightarrow> dict option \<Rightarrow> dict option \<Rightarrow> http_request" where
  "mk_request s method' endpoint data params' =
     \<lparr> http_method = method', url = base_url s @ endpoint, json_data = data, params = params',
       headers = get_headers s, req_timeout = timeout s \<rparr>"

text \<open>
  \<^verbatim>\<open>_request\<close> and \<^verbatim>\<open>_refresh_access_token\<close> call each other. A result is the value
  returned or the exception raised, with the client as the call leaves it: what was
  assigned before an exception stays assigned.
\<close>

function request :: "'w transport \<Rightarrow> string \<Rightarrow> string \<Rightarrow> dict option \<Rightarrow> dict option \<Rightarrow> bool \<Rightarrow> 'w client
      \<Rightarrow> (error + json) \<times> 'w client"
  and refresh_access_token :: "'w transport \<Rightarrow> 'w client \<Rightarrow> (error + unit) \<times> 'w client"
where
  "request srv method' endpoint data params' retry_on_401 s =
     (case session_request srv (mk_request s method' endpoint data params') s of
        (RequestException e, s1) \<Rightarrow> (Inl (request_failed e), s1)
      | (Response response, s1) \<Rightarrow>
          if status_code response = 401 \<and> retry_on_401 \<and> truthy (refresh_token s1) then
            (case refresh_access_token srv s1 of
               (Inl e, s2) \<Rightarrow> (Inl e, clear_tokens s2)
             | (Inr _, s2) \<Rightarrow>
                 (case session_request srv (mk_request s2 method' endpoint data params') s2 of
                    (RequestException e, s3) \<Rightarrow> (Inl (request_failed e), clear_tokens s3)
                  | (Response response2, s3) \<Rightarrow> (finish response2, s3)))
          else (finish response, s1))"
| "refresh_access_token srv s =
     (if \<not> truthy (refresh_token s) then
        (Inl (HSEAPIError Authentication (JStr ''No refresh token available'') None JNull), s)
      else
        (case request srv ''POST'' ''/api/auth/refresh''
                (Some [(''refreshToken'', refresh_token s)]) None False s of
           (Inl e, s1) \<Rightarrow> (Inl e, s1)
         | (Inr result, s1) \<Rightarrow>
             (case py_getitem result ''accessToken'' of
                Inl e \<Rightarrow> (Inl e, s1)
              | Inr a \<Rightarrow>
                  (case py_getitem result ''refreshToken'' of
                     Inl e \<Rightarrow> (Inl e, s1)
                   | Inr r \<Rightarrow> (Inr (), set_tokens (AuthTokens a r) s1)))))"
  by pat_completeness auto

termination
  by (relation "measure (\<lambda>x. case x of
          Inl (srv, m, e, d, p, retry, s) \<Rightarrow> (if retry then 2 else 0)
        | Inr (srv, s) \<Rightarrow> 1)") auto

declare request.simps [simp del] refresh_access_token.simps [simp del]

text \<open>\<^verbatim>\<open>signup\<close> and \<^verbatim>\<open>login\<close>: the tokens are read from the result by subscripting,
  first \<^verbatim>\<open>accessToken\<close>, then \<^verbatim>\<open>refreshToken\<close>, before \<^verbatim>\<open>set_tokens\<close>.\<close>

definition store_tokens :: "json \<Rightarrow> 'w client \<Rightarrow> (error + json) \<times> 'w client" where
  "store_tokens result s1 =
     (case py_getitem result ''accessToken'' of
        Inl e \<Rightarrow> (Inl e, s1)
      | Inr a \<Rightarrow>
          (case py_getitem result ''refreshToken'' of
             Inl e \<Rightarrow> (Inl e, s1)
           | Inr r \<Rightarrow> (Inr result, set_tokens (AuthTokens a r) s1)))"

definition signup :: "'w transport \<Rightarrow> string \<Rightarrow> string \<Rightarrow> string \<Rightarrow> string \<Rightarrow> 'w client
      \<Rightarrow> (error + json) \<times> 'w client" where
  "signup srv name email password organization_name s =
     (let data = [(''name'', JStr name), (''email'', JStr email), (''password'', JStr password),
                  (''organizationName'', JStr organization_name)]
      in case request srv ''POST'' ''/api/auth/signup-with-org'' (Some data) None True s of
           (Inl e, s1) \<Rightarrow> (Inl e, s1)
         | (Inr result, s1) \<Rightarrow> store_tokens result s1)"

definition login :: "'w transport \<Rightarrow> string \<Rightarrow> string \<Rightarrow> 'w client \<Rightarrow> (error + json) \<times> 'w client" where
  "login srv email password s =
     (let data = [(''email'', JStr email), (''password'', JStr password)]
      in case request srv ''POST'' ''/api/auth/login'' (Some data) None True s of
           (Inl e, s1) \<Rightarrow> (Inl e, s1)
         | (Inr result, s1) \<Rightarrow> store_tokens result s1)"

definition logout :: "'w transport \<Rightarrow> 'w client \<Rightarrow> (error + unit) \<times> 'w client" where
  "logout srv s =
     (if truthy (refresh_token s) then
        (case request srv ''POST'' ''/api/auth/logout''
                (Some [(''refreshToken'', refresh_token s)]) None True s of
           (Inl e, s1) \<Rightarrow> (Inl e, s1)
         | (Inr _, s1) \<Rightarrow> (Inr (), clear_tokens s1))
      else (Inr (), clear_tokens s))"

text \<open>\<^verbatim>\<open>if station_id: params["stationId"] = station_id\<close>, for an optional string: neither
  \<^verbatim>\<open>None\<close> nor the empty string is stored.\<close>

definition set_if_given :: "string \<Rightarrow> string option \<Rightarrow> dict \<Rightarrow> dict" where
  "set_if_given k v d =
     (case v of
        None \<Rightarrow> d
      | Some x \<Rightarrow> if x \<noteq> [] then AList.update k (JStr x) d else d)"

definition list_audits :: "'w transport \<Rightarrow> string option \<Rightarrow> string option \<Rightarrow> string option
      \<Rightarrow> string option \<Rightarrow> int \<Rightarrow> 'w client \<Rightarrow> (error + json) \<times> 'w client" where
  "list_audits srv station_id auditor_id status' cursor limit s =
     (let params' =
            set_if_given ''cursor'' cursor
              (set_if_given ''status'' status'
                (set_if_given ''auditorId'' auditor_id
                  (set_if_given ''stationId'' station_id [(''limit'', JInt limit)])))
      in case request srv ''GET'' ''/api/audits'' None (Some params') True s of
           (Inl e, s1) \<Rightarrow> (Inl e, s1)
         | (Inr result, s1) \<Rightarrow>
             (case py_get result ''audits'' (JList []) of
                Inl e \<Rightarrow> (Inl e, s1)
              | Inr a \<Rightarrow>
                  (case py_get result ''pagination'' (JObj []) of
                     Inl e \<Rightarrow> (Inl e, s1)
                   | Inr p \<Rightarrow> (Inr (JObj [(''data'', a), (''pagination'', p)]), s1))))"

section \<open>The requests the methods issue\<close>

text \<open>The request that \<^verbatim>\<open>_refresh_access_token\<close> issues from a client \<open>s\<close>.\<close>

definition refresh_request :: "'w client \<Rightarrow> http_request" where
  "refresh_request s =
     mk_request s ''POST'' ''/api/auth/refresh'' (Some [(''refreshToken'', refresh_token s)]) None"

text \<open>The requests that \<^verbatim>\<open>login\<close> and \<^verbatim>\<open>logout\<close> issue from a client \<open>s\<close>, and the
  one \<^verbatim>\<open>list_audits\<close> issues when given a station id and a limit only.\<close>

definition login_request :: "'w client \<Rightarrow> string \<Rightarrow> string \<Rightarrow> http_request" where
  "login_request s email password =
     mk_request s ''POST'' ''/api/auth/login''
       (Some [(''email'', JStr email), (''password'', JStr password)]) None"

definition logout_request :: "'w client \<Rightarrow> http_request" where
  "logout_request s =
     mk_request s ''POST'' ''/api/auth/logout'' (Some [(''refreshToken'', refresh_token s)]) None"

definition audits_request :: "'w client \<Rightarrow> string \<Rightarrow> int \<Rightarrow> http_request" where
  "audits_request s station_id limit =
     mk_request s ''GET'' ''/api/audits'' None
       (Some [(''limit'', JInt limit), (''stationId'', JStr station_id)])"

section \<open>Predicates of the statements\<close>

text \<open>
  The token pair is consistent when both tokens are absent or both are present. A remote
  side returns no null tokens when no JSON object it answers with has a null
  \<^verbatim>\<open>accessToken\<close> or \<^verbatim>\<open>refreshToken\<close> member; \<open>good_object\<close> says the same of a
  decoded value.
\<close>

definition paired :: "'w client \<Rightarrow> bool" where
  "paired s = ((access_token s = JNull) = (refresh_token s = JNull))"

definition non_null_tokens :: "'w transport \<Rightarrow> bool" where
  "non_null_tokens srv =
     (\<forall>rq w r w' kvs. srv rq w = (Response r, w') \<and> json_body r = Inr (JObj kvs) \<longrightarrow>
        map_of kvs ''accessToken'' \<noteq> Some JNull \<and> map_of kvs ''refreshToken'' \<noteq> Some JNull)"

definition good_object :: "json \<Rightarrow> bool" where
  "good_object v =
     (\<forall>kvs. v = JObj kvs \<longrightarrow>
        map_of kvs ''accessToken'' \<noteq> Some JNull \<and> map_of kvs ''refreshToken'' \<noteq> Some JNull)"

section \<open>Test doubles and example inputs\<close>

text \<open>A remote side that plays a fixed script of outcomes, one per request, and refuses
  the connection once the script is used up.\<close>

definition scripted :: "outcome list transport" where
  "scripted rq w =
     (case w of
        [] \<Rightarrow> (RequestException ''connection refused'', [])
      | out # rest \<Rightarrow> (out, rest))"

text \<open>A remote side that gives the same answer to every request.\<close>

definition always :: "outcome \<Rightarrow> unit transport" where
  "always out rq w = (out, w)"

text \<open>A response with a plain-text body that does not decode as JSON, for any status.\<close>

definition plain_response :: "int \<Rightarrow> response" where
  "plain_response code =
     \<lparr> status_code = code, response_text = ''oops'',
       json_body = Inl ''Expecting value: line 1 column 1 (char 0)'' \<rparr>"

text \<open>A 401 whose body is the JSON object with an \<^verbatim>\<open>error\<close> and a \<^verbatim>\<open>details\<close> member.\<close>

definition expired_response :: response where
  \<open>expired_response =
     \<lparr> status_code = 401, response_text = ''{"error": "expired", "details": [1]}'',
       json_body = Inr (JObj [(''error'', JStr ''expired''), (''details'', JList [JInt 1])]) \<rparr>\<close>

text \<open>A 400 whose body is the empty JSON object.\<close>

definition empty_object_response :: response where
  "empty_object_response =
     \<lparr> status_code = 400, response_text = ''{}'', json_body = Inr (JObj []) \<rparr>"

text \<open>A 200 whose body carries a fresh token pair.\<close>

definition token_response :: response where
  \<open>token_response =
     \<lparr> status_code = 200, response_text = ''{"accessToken": "A", "refreshToken": "R"}'',
       json_body = Inr (JObj [(''accessToken'', JStr ''A''), (''refreshToken'', JStr ''R'')]) \<rparr>\<close>

text \<open>A client holding a token pair.\<close>

definition logged_in :: "'w \<Rightarrow> 'w client" where
  "logged_in w =
     \<lparr> base_url = ''http://localhost:3001'', access_token = JStr ''A0'',
       refresh_token = JStr ''R0'', timeout = 30, max_retries = 3, on_token_refresh = True,
       notified = [], sent = [], world = w \<rparr>"

text \<open>Scripts: the original request and the resend both answered 401, with a successful
  refresh in between; a refresh answered 401; an original 401 followed by a refresh
  answered 403; an original 401 followed by a refresh answered 401.\<close>

definition rejected_twice :: "outcome list" where
  "rejected_twice = [Response expired_response, Response token_response, Response (plain_response 401)]"

definition refresh_rejected :: "outcome list" where
  "refresh_rejected = [Response (plain_response 401)]"

definition refresh_forbidden :: "outcome list" where
  "refresh_forbidden = [Response expired_response, Response (plain_response 403)]"

definition refresh_rejected_after_401 :: "outcome list" where
  "refresh_rejected_after_401 = [Response (plain_response 401), Response expired_response]"

text \<open>The client states along the first script.\<close>

definition after_first :: "outcome list client" where
  "after_first =
     snd (session_request scripted
            (mk_request (logged_in rejected_twice) ''GET'' ''/api/stations'' None None)
            (logged_in rejected_twice))"

definition after_refresh :: "outcome list client" where
  "after_refresh = snd (refresh_access_token scripted after_first)"

definition after_resend :: "outcome list client" where
  "after_resend =
     snd (session_request scripted (mk_request after_refresh ''GET'' ''/api/stations'' None None)
            after_refresh)"

text \<open>A client as the constructor leaves it, without an initial access token.\<close>

definition logged_out :: "'w \<Rightarrow> 'w client" where
  "logged_out w = init ''http://localhost:3001/'' None 30 3 True w"

text \<open>A 304 with an empty body.\<close>

definition not_modified :: response where
  "not_modified =
     \<lparr> status_code = 304, response_text = [],
       json_body = Inl ''Expecting value: line 1 column 1 (char 0)'' \<rparr>"

text \<open>The login request of the example, and a page of audits without an \<^verbatim>\<open>audits\<close>
  member.\<close>

definition admin_login_request :: http_request where
  "admin_login_request =
     login_request (logged_out [Response token_response]) ''admin@example.com'' ''password123''"

definition audits_page :: response where
  \<open>audits_page =
     \<lparr> status_code = 200, response_text = ''{"pagination": {"hasMore": false}}'',
       json_body = Inr (JObj [(''pagination'', JObj [(''hasMore'', JBool False)])]) \<rparr>\<close>

section \<open>Basic facts about the state\<close>

text \<open>The definitions that evaluating a dispatcher call unfolds.\<close>

lemmas request_defs = request.simps refresh_access_token.simps session_request_def mk_request_def
  get_headers_def finish_def ok_def set_tokens_def clear_tokens_def handle_error_def
  request_failed_def Let_def

lemma session_request_fields:
  assumes "session_request srv rq s = (out, s1)"
  shows "sent s1 = sent s @ [rq]" and "access_token s1 = access_token s"
    and "refresh_token s1 = refresh_token s" and "on_token_refresh s1 = on_token_refresh s"
    and "notified s1 = notified s" and "base_url s1 = base_url s" and "timeout s1 = timeout s"
  using assms by (auto simp: session_request_def split: prod.splits)

lemma set_tokens_fields:
  "sent (set_tokens t s) = sent s" "world (set_tokens t s) = world s"
  "access_token (set_tokens t s) = tokens_access t"
  "refresh_token (set_tokens t s) = tokens_refresh t"
  "notified (set_tokens t s) = (if on_token_refresh s then notified s @ [t] else notified s)"
  "on_token_refresh (set_tokens t s) = on_token_refresh s"
  "base_url (set_tokens t s) = base_url s" "timeout (set_tokens t s) = timeout s"
  by (simp_all add: set_tokens_def Let_def)

lemma clear_tokens_fields:
  "sent (clear_tokens s) = sent s" "world (clear_tokens s) = world s"
  "access_token (clear_tokens s) = JNull" "refresh_token (clear_tokens s) = JNull"
  "notified (clear_tokens s) = notified s" "on_token_refresh (clear_tokens s) = on_token_refresh s"
  "base_url (clear_tokens s) = base_url s" "timeout (clear_tokens s) = timeout s"
  by (simp_all add: clear_tokens_def)

lemma session_request_mk:
  assumes "session_request srv rq s = (out, s1)"
  shows "mk_request s1 m e d p = mk_request s m e d p" and "refresh_request s1 = refresh_request s"
  using session_request_fields[OF assms]
  by (simp_all add: mk_request_def refresh_request_def get_headers_def Let_def)

lemma mk_request_headers:
  "base_url s2 = base_url s \<Longrightarrow> timeout s2 = timeout s \<Longrightarrow>
   mk_request s2 m e d p = (mk_request s m e d p)\<lparr> headers := get_headers s2 \<rparr>"
  by (simp add: mk_request_def)

section \<open>The branches of the dispatcher\<close>

text \<open>Each path through \<^verbatim>\<open>_request\<close> as an equation of its own; the later proofs use
  these instead of unfolding the recursive definition.\<close>

lemma request_transport_failure:
  "session_request srv (mk_request s m e d p) s = (RequestException x, s1) \<Longrightarrow>
   request srv m e d p retry s = (Inl (request_failed x), s1)"
  by (simp add: request.simps)

lemma request_direct:
  "session_request srv (mk_request s m e d p) s = (Response r, s1) \<Longrightarrow>
   \<not> (status_code r = 401 \<and> retry \<and> truthy (refresh_token s1)) \<Longrightarrow>
   request srv m e d p retry s = (finish r, s1)"
  by (subst request.simps) auto

lemma request_refresh_failed:
  "session_request srv (mk_request s m e d p) s = (Response r, s1) \<Longrightarrow>
   status_code r = 401 \<Longrightarrow> retry \<Longrightarrow> truthy (refresh_token s1) \<Longrightarrow>
   refresh_access_token srv s1 = (Inl err, s2) \<Longrightarrow>
   request srv m e d p retry s = (Inl err, clear_tokens s2)"
  by (subst request.simps) simp

lemma request_resend_failure:
  "session_request srv (mk_request s m e d p) s = (Response r, s1) \<Longrightarrow>
   status_code r = 401 \<Longrightarrow> retry \<Longrightarrow> truthy (refresh_token s1) \<Longrightarrow>
   refresh_access_token srv s1 = (Inr u, s2) \<Longrightarrow>
   session_request srv (mk_request s2 m e d p) s2 = (RequestException x, s3) \<Longrightarrow>
   request srv m e d p retry s = (Inl (request_failed x), clear_tokens s3)"
  by (subst request.simps) simp

lemma request_resend:
  "session_request srv (mk_request s m e d p) s = (Response r, s1) \<Longrightarrow>
   status_code r = 401 \<Longrightarrow> retry \<Longrightarrow> truthy (refresh_token s1) \<Longrightarrow>
   refresh_access_token srv s1 = (Inr u, s2) \<Longrightarrow>
   session_request srv (mk_request s2 m e d p) s2 = (Response r2, s3) \<Longrightarrow>
   request srv m e d p retry s = (finish r2, s3)"
  by (subst request.simps) simp

lemma request_no_retry:
  "request srv m e d p False s =
     (case session_request srv (mk_request s m e d p) s of
        (RequestException x, s1) \<Rightarrow> (Inl (request_failed x), s1)
      | (Response r, s1) \<Rightarrow> (finish r, s1))"
  by (simp add: request.simps split: prod.splits outcome.splits)

lemma refresh_absent:
  "\<not> truthy (refresh_token s) \<Longrightarrow>
   refresh_access_token srv s =
     (Inl (HSEAPIError Authentication (JStr ''No refresh token available'') None JNull), s)"
  by (simp add: refresh_access_token.simps)

lemma refresh_unfold:
  "truthy (refresh_token s) \<Longrightarrow>
   refresh_access_token srv s =
     (case session_request srv (refresh_request s) s of
        (RequestException x, s1) \<Rightarrow> (Inl (request_failed x), s1)
      | (Response r, s1) \<Rightarrow>
          (case finish r of
             Inl e \<Rightarrow> (Inl e, s1)
           | Inr result \<Rightarrow>
               (case py_getitem result ''accessToken'' of
                  Inl e \<Rightarrow> (Inl e, s1)
                | Inr a \<Rightarrow>
                    (case py_getitem result ''refreshToken'' of
                       Inl e \<Rightarrow> (Inl e, s1)
                     | Inr r \<Rightarrow> (Inr (), set_tokens (AuthTokens a r) s1)))))"
  by (simp add: refresh_access_token.simps request_no_retry refresh_request_def
        split: prod.splits outcome.splits sum.splits)

lemma refresh_sent:
  "sent (snd (refresh_access_token srv s)) =
     (if truthy (refresh_token s) then sent s @ [refresh_request s] else sent s)"
proof (cases "truthy (refresh_token s)")
  case False
  then show ?thesis by (simp add: refresh_absent)
next
  case True
  obtain out s1 where sr: "session_request srv (refresh_request s) s = (out, s1)"
    by (cases "session_request srv (refresh_request s) s")
  from session_request_fields(1)[OF sr] True sr show ?thesis
    by (simp add: refresh_unfold set_tokens_fields split: outcome.splits sum.splits)
qed

lemma refresh_keeps:
  "base_url (snd (refresh_access_token srv s)) = base_url s \<and>
   timeout (snd (refresh_access_token srv s)) = timeout s \<and>
   on_token_refresh (snd (refresh_access_token srv s)) = on_token_refresh s"
proof (cases "truthy (refresh_token s)")
  case False
  then show ?thesis by (simp add: refresh_absent)
next
  case True
  obtain out s1 where sr: "session_request srv (refresh_request s) s = (out, s1)"
    by (cases "session_request srv (refresh_request s) s")
  from session_request_fields[OF sr] True sr show ?thesis
    by (simp add: refresh_unfold set_tokens_fields split: outcome.splits sum.splits)
qed

lemma request_sent_first:
  "\<exists>rest. sent (snd (request srv m e d p retry s)) = sent s @ mk_request s m e d p # rest"
proof -
  obtain out s1 where sr: "session_request srv (mk_request s m e d p) s = (out, s1)"
    by (cases "session_request srv (mk_request s m e d p) s")
  note f1 = session_request_fields(1)[OF sr]
  show ?thesis
  proof (cases out)
    case (RequestException x)
    with sr f1 show ?thesis by (simp add: request_transport_failure)
  next
    case (Response r)
    show ?thesis
    proof (cases "status_code r = 401 \<and> retry \<and> truthy (refresh_token s1)")
      case False
      with sr Response f1 show ?thesis by (simp add: request_direct)
    next
      case True
      obtain res s2 where rf: "refresh_access_token srv s1 = (res, s2)"
        by (cases "refresh_access_token srv s1")
      have s2: "sent s2 = sent s @ [mk_request s m e d p, refresh_request s1]"
        using refresh_sent[of srv s1] rf True f1 by simp
      show ?thesis
      proof (cases res)
        case (Inl err)
        with sr Response True rf s2 show ?thesis
          by (simp add: request_refresh_failed clear_tokens_fields)
      next
        case (Inr u)
        obtain out2 s3 where sr2: "session_request srv (mk_request s2 m e d p) s2 = (out2, s3)"
          by (cases "session_request srv (mk_request s2 m e d p) s2")
        from sr Response True rf Inr sr2 s2 session_request_fields(1)[OF sr2] show ?thesis
          by (cases out2) (simp_all add: request_resend request_resend_failure clear_tokens_fields)
      qed
    qed
  qed
qed

section \<open>Error classification\<close>

text \<open>
  C3. For every response, \<^verbatim>\<open>_handle_error\<close> produces one typed error that carries the
  response's status code, and the error's kind depends on the status code alone: 401 gives
  Authentication, 400 Validation, 404 NotFound, 429 RateLimit, every status from 500 up
  Server, every other status Generic. Two responses with the same status get the same kind
  whatever their bodies are, and the dispatcher fails with exactly this error on every
  response that is not \<^verbatim>\<open>ok\<close>.
\<close>

theorem classify_by_status:
  "(\<exists>k m d. handle_error r = HSEAPIError k m (Some (status_code r)) d) \<and>
   (status_code r = 401 \<longrightarrow> kind (handle_error r) = Authentication) \<and>
   (status_code r = 400 \<longrightarrow> kind (handle_error r) = Validation) \<and>
   (status_code r = 404 \<longrightarrow> kind (handle_error r) = NotFound) \<and>
   (status_code r = 429 \<longrightarrow> kind (handle_error r) = RateLimit) \<and>
   (500 \<le> status_code r \<longrightarrow> kind (handle_error r) = Server) \<and>
   (status_code r < 500 \<and> status_code r \<notin> {401, 400, 404, 429} \<longrightarrow>
      kind (handle_error r) = Generic) \<and>
   (status_code r' = status_code r \<longrightarrow> kind (handle_error r') = kind (handle_error r)) \<and>
   (\<not> ok r \<longrightarrow> finish r = Inl (handle_error r))"
  by (simp add: handle_error_def finish_def Let_def split: prod.splits)

theorem classify_by_status_witness:
  "status_code expired_response = 401 \<and> kind (handle_error expired_response) = Authentication \<and>
   status_code (plain_response 401) = status_code expired_response \<and>
   kind (handle_error (plain_response 401)) = kind (handle_error expired_response) \<and>
   \<not> ok expired_response \<and> finish expired_response = Inl (handle_error expired_response) \<and>
   status_code (plain_response 400) = 400 \<and> kind (handle_error (plain_response 400)) = Validation \<and>
   status_code (plain_response 404) = 404 \<and> kind (handle_error (plain_response 404)) = NotFound \<and>
   status_code (plain_response 429) = 429 \<and> kind (handle_error (plain_response 429)) = RateLimit \<and>
   500 \<le> status_code (plain_response 503) \<and> kind (handle_error (plain_response 503)) = Server \<and>
   status_code (plain_response 418) < 500 \<and> status_code (plain_response 418) \<notin> {401, 400, 404, 429} \<and>
   kind (handle_error (plain_response 418)) = Generic"
  using classify_by_status [of expired_response "plain_response 401"]
    classify_by_status [of "plain_response 400" "plain_response 400"]
    classify_by_status [of "plain_response 404" "plain_response 404"]
    classify_by_status [of "plain_response 429" "plain_response 429"]
    classify_by_status [of "plain_response 503" "plain_response 503"]
    classify_by_status [of "plain_response 418" "plain_response 418"]
  by (simp add: plain_response_def expired_response_def ok_def)

text \<open>
  C6, as stated, fails: a 400 whose body is the JSON object \<^verbatim>\<open>{}\<close> decodes, has no
  \<^verbatim>\<open>error\<close> member and has the non-empty raw text \<^verbatim>\<open>{}\<close>, yet its message is
  \<^verbatim>\<open>Unknown error\<close>, not the raw text.
\<close>

theorem message_not_raw_text_counterexample:
  "json_body empty_object_response = Inr (JObj []) \<and>
   map_of [] ''error'' = (None :: json option) \<and>
   response_text empty_object_response = ''{}'' \<and>
   message (handle_error empty_object_response) = JStr ''Unknown error'' \<and>
   message (handle_error empty_object_response) \<noteq> JStr (response_text empty_object_response)"
  by (simp add: empty_object_response_def handle_error_def)

text \<open>
  C6, amended. When the body decodes to a JSON object, the message is the object's
  \<^verbatim>\<open>error\<close> member, or \<^verbatim>\<open>Unknown error\<close> when it has none, and the details are its
  \<^verbatim>\<open>details\<close> member, or absent when it has none. When the body does not decode, or
  decodes to anything but an object, the message is the raw response text, or
  \<^verbatim>\<open>Unknown error\<close> when the text is empty, and the details are absent.
\<close>

theorem handle_error_message_details:
  "(json_body r = Inr (JObj kvs) \<longrightarrow>
      message (handle_error r) =
        (case map_of kvs ''error'' of Some v \<Rightarrow> v | None \<Rightarrow> JStr ''Unknown error'') \<and>
      details (handle_error r) =
        (case map_of kvs ''details'' of Some v \<Rightarrow> v | None \<Rightarrow> JNull)) \<and>
   ((\<forall>kvs. json_body r \<noteq> Inr (JObj kvs)) \<longrightarrow>
      message (handle_error r) =
        (if response_text r \<noteq> [] then JStr (response_text r) else JStr ''Unknown error'') \<and>
      details (handle_error r) = JNull)"
proof (cases "json_body r")
  case (Inl a)
  then show ?thesis by (simp add: handle_error_def Let_def)
next
  case (Inr v)
  then show ?thesis by (cases v) (simp_all add: handle_error_def Let_def)
qed

theorem handle_error_message_details_witness:
  "json_body expired_response = Inr (JObj [(''error'', JStr ''expired''), (''details'', JList [JInt 1])]) \<and>
   message (handle_error expired_response) = JStr ''expired'' \<and>
   details (handle_error expired_response) = JList [JInt 1] \<and>
   (\<forall>kvs. json_body (plain_response 500) \<noteq> Inr (JObj kvs)) \<and>
   message (handle_error (plain_response 500)) = JStr ''oops'' \<and>
   details (handle_error (plain_response 500)) = JNull"
  using handle_error_message_details
      [of expired_response "[(''error'', JStr ''expired''), (''details'', JList [JInt 1])]"]
    handle_error_message_details [of "plain_response 500" "[]"]
  by (simp add: plain_response_def expired_response_def)

section \<open>The unauthorized-retry protocol\<close>

text \<open>
  C2. One call of the dispatcher hands to the transport either the original request alone,
  or the original request and one refresh request, or these two and one resend of the
  original request (which differs from it in its headers only); the last two only when the
  call allows the retry and a refresh token is present. So there is at most one
  unauthorized-retry and at most one refresh per call. With the retry disallowed exactly one
  request is sent. The refresh cycle sends exactly one request when a refresh token is
  present, none otherwise, and a refresh answered 401 fails with that response's error
  without anything further being sent. When the resend is answered 401 as well, the call
  fails with that response's error and nothing more is sent.
\<close>

theorem unauthorized_retry_at_most_once:
  "(sent (snd (request srv m e d p retry s)) = sent s @ [mk_request s m e d p] \<or>
    retry \<and> truthy (refresh_token s) \<and>
      (sent (snd (request srv m e d p retry s)) = sent s @ [mk_request s m e d p, refresh_request s] \<or>
       (\<exists>hs. sent (snd (request srv m e d p retry s)) =
          sent s @ [mk_request s m e d p, refresh_request s, (mk_request s m e d p)\<lparr> headers := hs \<rparr>]))) \<and>
   sent (snd (request srv m e d p False s)) = sent s @ [mk_request s m e d p] \<and>
   sent (snd (refresh_access_token srv s)) =
     (if truthy (refresh_token s) then sent s @ [refresh_request s] else sent s) \<and>
   (truthy (refresh_token s) \<and> session_request srv (refresh_request s) s = (Response r, s') \<and>
    status_code r = 401 \<longrightarrow>
      refresh_access_token srv s = (Inl (handle_error r), s') \<and> sent s' = sent s @ [refresh_request s]) \<and>
   (session_request srv (mk_request s m e d p) s = (Response r1, s1) \<and> status_code r1 = 401 \<and>
    truthy (refresh_token s1) \<and> refresh_access_token srv s1 = (Inr u, s2) \<and>
    session_request srv (mk_request s2 m e d p) s2 = (Response r2, s3) \<and> status_code r2 = 401 \<longrightarrow>
      request srv m e d p True s = (Inl (handle_error r2), s3) \<and>
      sent s3 = sent s @ [mk_request s m e d p, refresh_request s, mk_request s2 m e d p])"
  (is "?A \<and> ?B \<and> ?C \<and> ?D \<and> ?E")
proof -
  obtain out s1' where sr: "session_request srv (mk_request s m e d p) s = (out, s1')"
    by (cases "session_request srv (mk_request s m e d p) s")
  note f1 = session_request_fields[OF sr]
  note m1 = session_request_mk[OF sr]
  have A: ?A
  proof (cases out)
    case (RequestException x)
    with sr have "request srv m e d p retry s = (Inl (request_failed x), s1')"
      by (simp add: request_transport_failure)
    with f1(1) show ?thesis by simp
  next
    case (Response r)
    show ?thesis
    proof (cases "status_code r = 401 \<and> retry \<and> truthy (refresh_token s1')")
      case False
      with sr Response have "request srv m e d p retry s = (finish r, s1')"
        by (simp add: request_direct)
      with f1(1) show ?thesis by simp
    next
      case True
      obtain res s2' where rf: "refresh_access_token srv s1' = (res, s2')"
        by (cases "refresh_access_token srv s1'")
      have s2: "sent s2' = sent s @ [mk_request s m e d p, refresh_request s]"
        using refresh_sent[of srv s1'] rf True f1(1) m1(2) by simp
      have k2: "base_url s2' = base_url s" "timeout s2' = timeout s"
        using refresh_keeps[of srv s1'] rf f1 by simp_all
      show ?thesis
      proof (cases res)
        case (Inl err)
        with sr Response True rf have "request srv m e d p retry s = (Inl err, clear_tokens s2')"
          by (simp add: request_refresh_failed)
        with s2 True f1(3) show ?thesis by (simp add: clear_tokens_fields)
      next
        case (Inr v)
        obtain out2 s3' where sr2: "session_request srv (mk_request s2' m e d p) s2' = (out2, s3')"
          by (cases "session_request srv (mk_request s2' m e d p) s2'")
        note f2 = session_request_fields(1)[OF sr2]
        have "sent (snd (request srv m e d p retry s)) = sent s3'"
        proof (cases out2)
          case (Response r2)
          with sr \<open>out = Response r\<close> True rf Inr sr2 show ?thesis
            by (simp add: request_resend)
        next
          case (RequestException x)
          with sr \<open>out = Response r\<close> True rf Inr sr2 show ?thesis
            by (simp add: request_resend_failure clear_tokens_fields)
        qed
        then have "sent (snd (request srv m e d p retry s)) =
            sent s @ [mk_request s m e d p, refresh_request s,
                      (mk_request s m e d p)\<lparr> headers := get_headers s2' \<rparr>]"
          using f2 s2 mk_request_headers[OF k2] by simp
        with True f1(3) show ?thesis by auto
      qed
    qed
  qed
  have B: ?B
    using f1(1) sr by (cases out) (simp_all add: request_no_retry)
  have C: ?C by (rule refresh_sent)
  have D: ?D
  proof (intro impI, elim conjE)
    assume t: "truthy (refresh_token s)"
      and q: "session_request srv (refresh_request s) s = (Response r, s')"
      and u: "status_code r = 401"
    from u have "finish r = Inl (handle_error r)" by (simp add: finish_def ok_def)
    with t q session_request_fields(1)[OF q]
    show "refresh_access_token srv s = (Inl (handle_error r), s') \<and> sent s' = sent s @ [refresh_request s]"
      by (simp add: refresh_unfold)
  qed
  have E: ?E
  proof (intro impI, elim conjE)
    assume a1: "session_request srv (mk_request s m e d p) s = (Response r1, s1)"
      and a2: "status_code r1 = 401" and a3: "truthy (refresh_token s1)"
      and a4: "refresh_access_token srv s1 = (Inr u, s2)"
      and a5: "session_request srv (mk_request s2 m e d p) s2 = (Response r2, s3)"
      and a6: "status_code r2 = 401"
    from a6 have fin: "finish r2 = Inl (handle_error r2)" by (simp add: finish_def ok_def)
    have "sent s2 = sent s1 @ [refresh_request s1]"
      using refresh_sent[of srv s1] a3 a4 by simp
    then have "sent s3 = sent s @ [mk_request s m e d p, refresh_request s, mk_request s2 m e d p]"
      using session_request_fields(1)[OF a1] session_request_fields(1)[OF a5]
        session_request_mk(2)[OF a1] by simp
    moreover have "request srv m e d p True s = (Inl (handle_error r2), s3)"
      using request_resend[OF a1 a2 _ a3 a4 a5] fin by simp
    ultimately show "request srv m e d p True s = (Inl (handle_error r2), s3) \<and>
      sent s3 = sent s @ [mk_request s m e d p, refresh_request s, mk_request s2 m e d p]"
      by simp
  qed
  from A B C D E show ?thesis by blast
qed

theorem unauthorized_retry_at_most_once_witness:
  "truthy (refresh_token (logged_in refresh_rejected)) \<and>
   session_request scripted (refresh_request (logged_in refresh_rejected)) (logged_in refresh_rejected) =
     (Response (plain_response 401), (logged_in [])\<lparr> sent := [refresh_request (logged_in [])] \<rparr>) \<and>
   status_code (plain_response 401) = 401 \<and>
   refresh_access_token scripted (logged_in refresh_rejected) =
     (Inl (handle_error (plain_response 401)), (logged_in [])\<lparr> sent := [refresh_request (logged_in [])] \<rparr>) \<and>
   session_request scripted (mk_request (logged_in rejected_twice) ''GET'' ''/api/stations'' None None)
     (logged_in rejected_twice) = (Response expired_response, after_first) \<and>
   status_code expired_response = 401 \<and> truthy (refresh_token after_first) \<and>
   refresh_access_token scripted after_first = (Inr (), after_refresh) \<and>
   session_request scripted (mk_request after_refresh ''GET'' ''/api/stations'' None None) after_refresh =
     (Response (plain_response 401), after_resend) \<and>
   request scripted ''GET'' ''/api/stations'' None None True (logged_in rejected_twice) =
     (Inl (handle_error (plain_response 401)), after_resend) \<and>
   length (sent after_resend) = 3"
  using unauthorized_retry_at_most_once [where srv = scripted and m = "''GET''"
      and e = "''/api/stations''" and d = None and p = None and retry = True
      and s = "logged_in rejected_twice" and r = "plain_response 401"
      and s' = "(logged_in [])\<lparr> sent := [refresh_request (logged_in [])] \<rparr>"
      and ?r1.0 = expired_response and ?s1.0 = after_first and u = "()"
      and ?s2.0 = after_refresh and ?r2.0 = "plain_response 401" and ?s3.0 = after_resend]
    unauthorized_retry_at_most_once [where srv = scripted and m = "''GET''"
      and e = "''/api/stations''" and d = None and p = None and retry = False
      and s = "logged_in refresh_rejected" and r = "plain_response 401"
      and s' = "(logged_in [])\<lparr> sent := [refresh_request (logged_in [])] \<rparr>"
      and ?r1.0 = expired_response and ?s1.0 = after_first and u = "()"
      and ?s2.0 = after_refresh and ?r2.0 = "plain_response 401" and ?s3.0 = after_resend]
  by (simp add: request_defs scripted_def refresh_request_def logged_in_def rejected_twice_def
        refresh_rejected_def expired_response_def token_response_def plain_response_def
        after_first_def after_refresh_def after_resend_def)

text \<open>
  C7. When the refresh token is absent, the refresh cycle fails with the Authentication
  error \<^verbatim>\<open>No refresh token available\<close> and leaves the client, the list of sent requests
  and the remote side as they were; and the dispatcher behaves as it does with the retry
  disallowed: it sends the one original request and nothing else.
\<close>

theorem no_refresh_token_no_retry:
  "refresh_token s = JNull \<Longrightarrow>
   refresh_access_token srv s =
     (Inl (HSEAPIError Authentication (JStr ''No refresh token available'') None JNull), s) \<and>
   sent (snd (refresh_access_token srv s)) = sent s \<and>
   world (snd (refresh_access_token srv s)) = world s \<and>
   request srv m e d p retry s = request srv m e d p False s \<and>
   sent (snd (request srv m e d p retry s)) = sent s @ [mk_request s m e d p]"
proof -
  assume absent: "refresh_token s = JNull"
  obtain out s1 where sr: "session_request srv (mk_request s m e d p) s = (out, s1)"
    by (cases "session_request srv (mk_request s m e d p) s")
  from absent session_request_fields(3)[OF sr] have no: "\<not> truthy (refresh_token s1)" by simp
  have eq: "request srv m e d p b s =
      (case out of RequestException x \<Rightarrow> (Inl (request_failed x), s1) | Response r \<Rightarrow> (finish r, s1))" for b
    using sr no by (cases out) (simp_all add: request_transport_failure request_direct)
  have "sent (snd (request srv m e d p retry s)) = sent s @ [mk_request s m e d p]"
    using session_request_fields(1)[OF sr] by (cases out) (simp_all add: eq)
  with absent eq[of retry] eq[of False] show ?thesis
    by (simp add: refresh_absent)
qed

theorem no_refresh_token_no_retry_witness:
  "refresh_token (logged_out refresh_rejected) = JNull \<and>
   refresh_access_token scripted (logged_out refresh_rejected) =
     (Inl (HSEAPIError Authentication (JStr ''No refresh token available'') None JNull),
      logged_out refresh_rejected) \<and>
   fst (request scripted ''GET'' ''/api/stations'' None None True (logged_out refresh_rejected)) =
     Inl (HSEAPIError Authentication (JStr ''oops'') (Some 401) JNull) \<and>
   map url (sent (snd (request scripted ''GET'' ''/api/stations'' None None True
     (logged_out refresh_rejected)))) = [''http://localhost:3001/api/stations'']"
  using no_refresh_token_no_retry [of "logged_out refresh_rejected" scripted "''GET''"
      "''/api/stations''" None None True]
  by (simp add: request_defs scripted_def logged_out_def init_def rstrip_slash_def
        refresh_rejected_def plain_response_def)

text \<open>
  C1, as stated, fails on the kind of the error: with the original request answered 401, a
  refresh token present and the refresh request answered 403, the caller receives the
  error classified from the refresh response, a plain \<^verbatim>\<open>HSEAPIError\<close> (kind Generic),
  not an Authentication error.
\<close>

theorem refresh_failure_not_authentication_counterexample:
  "fst (session_request scripted
          (mk_request (logged_in refresh_forbidden) ''GET'' ''/api/stations'' None None)
          (logged_in refresh_forbidden)) = Response expired_response \<and>
   status_code expired_response = 401 \<and>
   truthy (refresh_token (logged_in refresh_forbidden)) \<and>
   fst (refresh_access_token scripted (snd (session_request scripted
          (mk_request (logged_in refresh_forbidden) ''GET'' ''/api/stations'' None None)
          (logged_in refresh_forbidden)))) = Inl (HSEAPIError Generic (JStr ''oops'') (Some 403) JNull) \<and>
   fst (request scripted ''GET'' ''/api/stations'' None None True (logged_in refresh_forbidden)) =
     Inl (HSEAPIError Generic (JStr ''oops'') (Some 403) JNull) \<and>
   access_token (snd (request scripted ''GET'' ''/api/stations'' None None True
     (logged_in refresh_forbidden))) = JNull \<and>
   refresh_token (snd (request scripted ''GET'' ''/api/stations'' None None True
     (logged_in refresh_forbidden))) = JNull"
  by (simp add: request_defs scripted_def logged_in_def refresh_forbidden_def expired_response_def
        plain_response_def)

text \<open>
  C1, amended. When the first response is 401, a refresh token is present and the refresh
  cycle fails, both tokens are cleared and the caller receives the refresh cycle's own
  error, unchanged: the typed error of the refresh response when that response is not
  \<^verbatim>\<open>ok\<close> (Authentication exactly when it is a 401, Generic for a 403, Server for a
  501), the Generic \<^verbatim>\<open>Request failed\<close> error when the refresh request fails in the
  transport, which with the client's own session includes a persistent 429, 500, 502, 503
  or 504. The error classified from the original 401 response is never raised on this
  path.
\<close>

theorem refresh_failure_clears_and_propagates:
  assumes "session_request srv (mk_request s m e d p) s = (Response r, s1)"
    and "status_code r = 401"
    and "truthy (refresh_token s)"
    and "refresh_access_token srv s1 = (Inl err, s2)"
  shows "request srv m e d p True s = (Inl err, clear_tokens s2) \<and>
     access_token (snd (request srv m e d p True s)) = JNull \<and>
     refresh_token (snd (request srv m e d p True s)) = JNull \<and>
     (\<forall>r' s'. session_request srv (refresh_request s) s1 = (Response r', s') \<and> \<not> ok r' \<longrightarrow>
        err = handle_error r') \<and>
     (\<forall>x s'. session_request srv (refresh_request s) s1 = (RequestException x, s') \<longrightarrow>
        err = request_failed x)"
proof -
  have t1: "truthy (refresh_token s1)"
    using assms(3) session_request_fields(3)[OF assms(1)] by simp
  have rq: "request srv m e d p True s = (Inl err, clear_tokens s2)"
    using request_refresh_failed[OF assms(1,2) _ t1 assms(4)] by simp
  have rr: "refresh_request s1 = refresh_request s"
    by (rule session_request_mk(2)[OF assms(1)])
  have a: "err = handle_error r'"
    if "session_request srv (refresh_request s) s1 = (Response r', s')" "\<not> ok r'" for r' s'
    using that assms(4) t1 rr by (simp add: refresh_unfold finish_def)
  have b: "err = request_failed x"
    if "session_request srv (refresh_request s) s1 = (RequestException x, s')" for x s'
    using that assms(4) t1 rr by (simp add: refresh_unfold)
  from rq a b show ?thesis by (auto simp: clear_tokens_fields)
qed

theorem refresh_failure_clears_and_propagates_witness:
  "session_request scripted
     (mk_request (logged_in refresh_rejected_after_401) ''GET'' ''/api/stations'' None None)
     (logged_in refresh_rejected_after_401) =
       (Response (plain_response 401),
        (logged_in [Response expired_response])
          \<lparr> sent := [mk_request (logged_in []) ''GET'' ''/api/stations'' None None] \<rparr>) \<and>
   status_code (plain_response 401) = 401 \<and>
   truthy (refresh_token (logged_in refresh_rejected_after_401)) \<and>
   request scripted ''GET'' ''/api/stations'' None None True (logged_in refresh_rejected_after_401) =
     (Inl (HSEAPIError Authentication (JStr ''expired'') (Some 401) (JList [JInt 1])),
      (logged_in [])
        \<lparr> access_token := JNull, refresh_token := JNull,
          sent := [mk_request (logged_in []) ''GET'' ''/api/stations'' None None,
                   refresh_request (logged_in [])] \<rparr>)"
  using refresh_failure_clears_and_propagates [of scripted "logged_in refresh_rejected_after_401"
      "''GET''" "''/api/stations''" None None "plain_response 401"
      "(logged_in [Response expired_response])
          \<lparr> sent := [mk_request (logged_in []) ''GET'' ''/api/stations'' None None] \<rparr>"
      "HSEAPIError Authentication (JStr ''expired'') (Some 401) (JList [JInt 1])"
      "(logged_in [])
        \<lparr> sent := [mk_request (logged_in []) ''GET'' ''/api/stations'' None None,
                   refresh_request (logged_in [])] \<rparr>"]
  by (simp add: request_defs scripted_def refresh_request_def logged_in_def
        refresh_rejected_after_401_def plain_response_def expired_response_def)

section \<open>Success and failure statuses\<close>

text \<open>
  C4, as stated, fails: a 304 with an empty body, delivered to the dispatcher, is not
  classified into an error; the call returns the empty result. \<^verbatim>\<open>response.ok\<close> is false
  only from 400 on.
\<close>

theorem redirect_status_is_success_counterexample:
  "status_code not_modified = 304 \<and>
   fst (session_request scripted
          (mk_request (logged_in [Response not_modified]) ''GET'' ''/api/stations'' None None)
          (logged_in [Response not_modified])) = Response not_modified \<and>
   fst (request scripted ''GET'' ''/api/stations'' None None True
          (logged_in [Response not_modified])) = Inr JNull"
  by (simp add: request_defs scripted_def logged_in_def not_modified_def)

text \<open>
  C4, amended. The response the dispatcher ends with (the first one, or the resend after a
  successful refresh) is treated as a failure when its status is in 400..599, and then the
  call fails with the typed error classified from it. Every other status, 3xx included, is
  treated as success: the result is empty for a 204 or an empty body, and the decoded body
  when a non-empty body decodes.
\<close>

theorem failure_statuses:
  "(400 \<le> status_code r \<and> status_code r < 600 \<longrightarrow> finish r = Inl (handle_error r)) \<and>
   ((status_code r < 400 \<or> 600 \<le> status_code r) \<and>
    (status_code r = 204 \<or> response_text r = []) \<longrightarrow> finish r = Inr JNull) \<and>
   ((status_code r < 400 \<or> 600 \<le> status_code r) \<and>
    status_code r \<noteq> 204 \<and> response_text r \<noteq> [] \<and> json_body r = Inr v \<longrightarrow> finish r = Inr v) \<and>
   (session_request srv (mk_request s m e d p) s = (Response r, s1) \<and>
    \<not> (status_code r = 401 \<and> retry \<and> truthy (refresh_token s)) \<longrightarrow>
      request srv m e d p retry s = (finish r, s1)) \<and>
   (session_request srv (mk_request s m e d p) s = (Response r1, s1) \<and> status_code r1 = 401 \<and>
    truthy (refresh_token s) \<and> refresh_access_token srv s1 = (Inr u, s2) \<and>
    session_request srv (mk_request s2 m e d p) s2 = (Response r, s3) \<longrightarrow>
      request srv m e d p True s = (finish r, s3))"
proof -
  have a: "request srv m e d p retry s = (finish r, s1)"
    if "session_request srv (mk_request s m e d p) s = (Response r, s1)"
      "\<not> (status_code r = 401 \<and> retry \<and> truthy (refresh_token s))"
    using that session_request_fields(3)[OF that(1)] by (intro request_direct) simp_all
  have b: "request srv m e d p True s = (finish r, s3)"
    if "session_request srv (mk_request s m e d p) s = (Response r1, s1)" "status_code r1 = 401"
      "truthy (refresh_token s)" "refresh_access_token srv s1 = (Inr u, s2)"
      "session_request srv (mk_request s2 m e d p) s2 = (Response r, s3)"
    using that session_request_fields(3)[OF that(1)] by (intro request_resend) simp_all
  from a b show ?thesis by (auto simp: finish_def ok_def)
qed

theorem failure_statuses_witness:
  "400 \<le> status_code (plain_response 403) \<and> status_code (plain_response 403) < 600 \<and>
   session_request scripted
     (mk_request (logged_in [Response (plain_response 403)]) ''GET'' ''/api/stations'' None None)
     (logged_in [Response (plain_response 403)]) =
       (Response (plain_response 403),
        (logged_in [])\<lparr> sent := [mk_request (logged_in []) ''GET'' ''/api/stations'' None None] \<rparr>) \<and>
   request scripted ''GET'' ''/api/stations'' None None True (logged_in [Response (plain_response 403)]) =
     (Inl (HSEAPIError Generic (JStr ''oops'') (Some 403) JNull),
      (logged_in [])\<lparr> sent := [mk_request (logged_in []) ''GET'' ''/api/stations'' None None] \<rparr>) \<and>
   status_code not_modified < 400 \<and> response_text not_modified = [] \<and>
   finish not_modified = Inr JNull \<and>
   status_code token_response < 400 \<and> status_code token_response \<noteq> 204 \<and>
   response_text token_response \<noteq> [] \<and>
   json_body token_response = Inr (JObj [(''accessToken'', JStr ''A''), (''refreshToken'', JStr ''R'')]) \<and>
   finish token_response = Inr (JObj [(''accessToken'', JStr ''A''), (''refreshToken'', JStr ''R'')]) \<and>
   truthy (refresh_token (logged_in rejected_twice)) \<and>
   session_request scripted (mk_request (logged_in rejected_twice) ''GET'' ''/api/stations'' None None)
     (logged_in rejected_twice) = (Response expired_response, after_first) \<and>
   status_code expired_response = 401 \<and>
   refresh_access_token scripted after_first = (Inr (), after_refresh) \<and>
   session_request scripted (mk_request after_refresh ''GET'' ''/api/stations'' None None) after_refresh =
     (Response (plain_response 401), after_resend) \<and>
   request scripted ''GET'' ''/api/stations'' None None True (logged_in rejected_twice) =
     (Inl (HSEAPIError Authentication (JStr ''oops'') (Some 401) JNull), after_resend)"
  using failure_statuses [where r = "plain_response 403" and srv = scripted
      and s = "logged_in [Response (plain_response 403)]" and m = "''GET''"
      and e = "''/api/stations''" and d = None and p = None and retry = True
      and ?s1.0 = "(logged_in [])\<lparr> sent := [mk_request (logged_in []) ''GET'' ''/api/stations'' None None] \<rparr>"
      and ?r1.0 = "plain_response 403" and u = "()" and ?s2.0 = after_refresh and ?s3.0 = after_resend]
    failure_statuses [where r = not_modified and srv = scripted
      and s = "logged_in [Response (plain_response 403)]" and m = "''GET''"
      and e = "''/api/stations''" and d = None and p = None and retry = True
      and ?s1.0 = after_first
      and ?r1.0 = "plain_response 403" and u = "()" and ?s2.0 = after_refresh and ?s3.0 = after_resend]
    failure_statuses [where r = token_response and srv = scripted
      and v = "JObj [(''accessToken'', JStr ''A''), (''refreshToken'', JStr ''R'')]"
      and s = "logged_in [Response (plain_response 403)]" and m = "''GET''"
      and e = "''/api/stations''" and d = None and p = None and retry = True
      and ?s1.0 = after_first
      and ?r1.0 = "plain_response 403" and u = "()" and ?s2.0 = after_refresh and ?s3.0 = after_resend]
    failure_statuses [where r = "plain_response 401" and srv = scripted
      and s = "logged_in rejected_twice" and m = "''GET''"
      and e = "''/api/stations''" and d = None and p = None and retry = True
      and ?s1.0 = after_first
      and ?r1.0 = expired_response and u = "()" and ?s2.0 = after_refresh and ?s3.0 = after_resend]
  by (simp add: request_defs scripted_def logged_in_def plain_response_def not_modified_def
        token_response_def rejected_twice_def expired_response_def after_first_def
        after_refresh_def after_resend_def)

section \<open>Credentials\<close>

text \<open>
  C8. \<^verbatim>\<open>set_tokens\<close> replaces both tokens by those of the given pair and, when a
  callback is registered, calls it once more, with exactly that pair. When the login
  request is answered with a success status and a JSON object whose \<^verbatim>\<open>accessToken\<close> and
  \<^verbatim>\<open>refreshToken\<close> are the strings \<open>a\<close> (not empty) and \<open>b\<close>, \<^verbatim>\<open>login\<close> returns
  that object and leaves the client with the authorization header \<^verbatim>\<open>Bearer a\<close>.
\<close>

theorem set_tokens_replaces_and_notifies:
  "access_token (set_tokens t s) = tokens_access t \<and>
   refresh_token (set_tokens t s) = tokens_refresh t \<and>
   notified (set_tokens t s) = (if on_token_refresh s then notified s @ [t] else notified s) \<and>
   (session_request srv (login_request s email password) s = (Response r, s1) \<and>
    ok r \<and> status_code r \<noteq> 204 \<and> response_text r \<noteq> [] \<and> json_body r = Inr (JObj kvs) \<and>
    map_of kvs ''accessToken'' = Some (JStr a) \<and> map_of kvs ''refreshToken'' = Some (JStr b) \<and>
    a \<noteq> [] \<longrightarrow>
      login srv email password s = (Inr (JObj kvs), set_tokens (AuthTokens (JStr a) (JStr b)) s1) \<and>
      map_of (get_headers (snd (login srv email password s))) ''Authorization'' = Some (Bearer (JStr a)) \<and>
      header_text (Bearer (JStr a)) = Some (''Bearer '' @ a))"
proof -
  have "login srv email password s = (Inr (JObj kvs), set_tokens (AuthTokens (JStr a) (JStr b)) s1)"
    if sr: "session_request srv (login_request s email password) s = (Response r, s1)"
      and okr: "ok r" "status_code r \<noteq> 204" "response_text r \<noteq> []" "json_body r = Inr (JObj kvs)"
      and toks: "map_of kvs ''accessToken'' = Some (JStr a)" "map_of kvs ''refreshToken'' = Some (JStr b)"
  proof -
    from okr(1) have "status_code r \<noteq> 401" by (auto simp: ok_def)
    with sr have "request srv ''POST'' ''/api/auth/login''
        (Some [(''email'', JStr email), (''password'', JStr password)]) None True s = (finish r, s1)"
      unfolding login_request_def by (intro request_direct) simp_all
    moreover from okr have "finish r = Inr (JObj kvs)" by (simp add: finish_def)
    ultimately show ?thesis using toks by (simp add: login_def store_tokens_def)
  qed
  then show ?thesis
    by (auto simp: set_tokens_fields get_headers_def Let_def)
qed

theorem set_tokens_replaces_and_notifies_witness:
  "session_request scripted admin_login_request (logged_out [Response token_response]) =
     (Response token_response, (logged_out [])\<lparr> sent := [admin_login_request] \<rparr>) \<and>
   ok token_response \<and> status_code token_response \<noteq> 204 \<and> response_text token_response \<noteq> [] \<and>
   json_body token_response = Inr (JObj [(''accessToken'', JStr ''A''), (''refreshToken'', JStr ''R'')]) \<and>
   fst (login scripted ''admin@example.com'' ''password123'' (logged_out [Response token_response])) =
     Inr (JObj [(''accessToken'', JStr ''A''), (''refreshToken'', JStr ''R'')]) \<and>
   map_of (get_headers (snd (login scripted ''admin@example.com'' ''password123''
       (logged_out [Response token_response])))) ''Authorization'' = Some (Bearer (JStr ''A'')) \<and>
   header_text (Bearer (JStr ''A'')) = Some ''Bearer A'' \<and>
   notified (snd (login scripted ''admin@example.com'' ''password123''
       (logged_out [Response token_response]))) = [AuthTokens (JStr ''A'') (JStr ''R'')]"
  using set_tokens_replaces_and_notifies [where srv = scripted
      and s = "logged_out [Response token_response]" and email = "''admin@example.com''"
      and password = "''password123''" and r = token_response
      and ?s1.0 = "(logged_out [])\<lparr> sent := [admin_login_request] \<rparr>"
      and kvs = "[(''accessToken'', JStr ''A''), (''refreshToken'', JStr ''R'')]"
      and a = "''A''" and b = "''R''"
      and t = "AuthTokens (JStr ''A'') (JStr ''R'')"]
  by (simp add: request_defs scripted_def logged_out_def init_def rstrip_slash_def
        token_response_def admin_login_request_def login_request_def)

section \<open>Listing audits\<close>

text \<open>
  C9. \<^verbatim>\<open>list_audits\<close> with a (non-empty) station id and a limit, and no other filter,
  first sends a GET to \<^verbatim>\<open>/api/audits\<close> whose query mapping is exactly \<^verbatim>\<open>limit\<close> and
  \<^verbatim>\<open>stationId\<close>; and when the dispatcher returns a JSON object, the result is the
  record whose \<^verbatim>\<open>data\<close> is the object's \<^verbatim>\<open>audits\<close> member, or the empty list when
  there is none, and whose \<^verbatim>\<open>pagination\<close> is its \<^verbatim>\<open>pagination\<close> member, or the empty
  mapping when there is none.
\<close>

theorem list_audits_station_and_limit:
  "station_id \<noteq> [] \<Longrightarrow>
   (\<exists>rest. sent (snd (list_audits srv (Some station_id) None None None limit s)) =
      sent s @ audits_request s station_id limit # rest) \<and>
   params (audits_request s station_id limit) =
     Some [(''limit'', JInt limit), (''stationId'', JStr station_id)] \<and>
   (request srv ''GET'' ''/api/audits'' None (params (audits_request s station_id limit)) True s =
      (Inr (JObj kvs), s1) \<longrightarrow>
    list_audits srv (Some station_id) None None None limit s =
      (Inr (JObj [(''data'', case map_of kvs ''audits'' of None \<Rightarrow> JList [] | Some v \<Rightarrow> v),
                  (''pagination'', case map_of kvs ''pagination'' of None \<Rightarrow> JObj [] | Some v \<Rightarrow> v)]),
       s1))"
proof -
  assume given: "station_id \<noteq> []"
  let ?ps = "[(''limit'', JInt limit), (''stationId'', JStr station_id)]"
  have ps: "set_if_given ''cursor'' None
              (set_if_given ''status'' None
                (set_if_given ''auditorId'' None
                  (set_if_given ''stationId'' (Some station_id) [(''limit'', JInt limit)]))) = ?ps"
    using given by (simp add: set_if_given_def)
  have st: "snd (list_audits srv (Some station_id) None None None limit s) =
      snd (request srv ''GET'' ''/api/audits'' None (Some ?ps) True s)"
    unfolding list_audits_def ps Let_def
    by (simp split: prod.splits sum.splits)
  have first: "\<exists>rest. sent (snd (list_audits srv (Some station_id) None None None limit s)) =
      sent s @ audits_request s station_id limit # rest"
    unfolding st audits_request_def by (rule request_sent_first)
  have res: "list_audits srv (Some station_id) None None None limit s =
      (Inr (JObj [(''data'', case map_of kvs ''audits'' of None \<Rightarrow> JList [] | Some v \<Rightarrow> v),
                  (''pagination'', case map_of kvs ''pagination'' of None \<Rightarrow> JObj [] | Some v \<Rightarrow> v)]),
       s1)"
    if "request srv ''GET'' ''/api/audits'' None (Some ?ps) True s = (Inr (JObj kvs), s1)"
    unfolding list_audits_def ps Let_def using that by simp
  from first res show ?thesis
    by (simp add: audits_request_def mk_request_def)
qed

theorem list_audits_station_and_limit_witness:
  "''s1'' \<noteq> [] \<and>
   request scripted ''GET'' ''/api/audits'' None (params (audits_request (logged_in []) ''s1'' 10)) True
     (logged_in [Response audits_page]) =
       (Inr (JObj [(''pagination'', JObj [(''hasMore'', JBool False)])]),
        (logged_in [])\<lparr> sent := [audits_request (logged_in []) ''s1'' 10] \<rparr>) \<and>
   sent (snd (list_audits scripted (Some ''s1'') None None None 10 (logged_in [Response audits_page]))) =
     [audits_request (logged_in []) ''s1'' 10] \<and>
   params (audits_request (logged_in []) ''s1'' 10) = Some [(''limit'', JInt 10), (''stationId'', JStr ''s1'')] \<and>
   fst (list_audits scripted (Some ''s1'') None None None 10 (logged_in [Response audits_page])) =
     Inr (JObj [(''data'', JList []), (''pagination'', JObj [(''hasMore'', JBool False)])])"
  using list_audits_station_and_limit [where station_id = "''s1''" and limit = 10 and srv = scripted
      and s = "logged_in [Response audits_page]"
      and kvs = "[(''pagination'', JObj [(''hasMore'', JBool False)])]"
      and ?s1.0 = "(logged_in [])\<lparr> sent := [audits_request (logged_in []) ''s1'' 10] \<rparr>"]
  by (simp add: request_defs scripted_def logged_in_def audits_page_def audits_request_def
        list_audits_def set_if_given_def)

section \<open>Logout\<close>

text \<open>
  C10, as stated, fails on its last part: with a token pair held, the logout request
  answered 401 and the refresh that the dispatcher then attempts answered 401 as well,
  \<^verbatim>\<open>logout\<close> fails with the refresh response's error and both tokens are cleared.
\<close>

theorem failed_logout_clears_tokens_counterexample:
  "access_token (logged_in refresh_rejected_after_401) = JStr ''A0'' \<and>
   refresh_token (logged_in refresh_rejected_after_401) = JStr ''R0'' \<and>
   fst (logout scripted (logged_in refresh_rejected_after_401)) =
     Inl (HSEAPIError Authentication (JStr ''expired'') (Some 401) (JList [JInt 1])) \<and>
   access_token (snd (logout scripted (logged_in refresh_rejected_after_401))) = JNull \<and>
   refresh_token (snd (logout scripted (logged_in refresh_rejected_after_401))) = JNull"
  by (simp add: request_defs scripted_def logged_in_def refresh_rejected_after_401_def
        plain_response_def expired_response_def logout_def)

text \<open>
  C10, amended. Without a refresh token \<^verbatim>\<open>logout\<close> sends nothing and leaves both tokens
  absent. With one, the first request it sends is the logout request. When that request
  fails in the transport, or is answered with a status other than 401 and the dispatcher
  fails on the response, the error reaches the caller and both tokens are as before; when
  it is answered with a status other than 401 and the dispatcher succeeds, both tokens are
  cleared. When it is answered 401 the dispatcher runs the refresh cycle, and if that fails
  the refresh cycle's error reaches the caller and both tokens are cleared.
\<close>

theorem logout_behaviour:
  "(\<not> truthy (refresh_token s) \<longrightarrow>
      logout srv s = (Inr (), clear_tokens s) \<and> sent (snd (logout srv s)) = sent s \<and>
      world (snd (logout srv s)) = world s \<and>
      access_token (snd (logout srv s)) = JNull \<and> refresh_token (snd (logout srv s)) = JNull) \<and>
   (truthy (refresh_token s) \<longrightarrow>
      (\<exists>rest. sent (snd (logout srv s)) = sent s @ logout_request s # rest)) \<and>
   (truthy (refresh_token s) \<and>
    session_request srv (logout_request s) s = (RequestException x, s1) \<longrightarrow>
      logout srv s = (Inl (request_failed x), s1) \<and>
      access_token s1 = access_token s \<and> refresh_token s1 = refresh_token s) \<and>
   (truthy (refresh_token s) \<and> session_request srv (logout_request s) s = (Response r, s1) \<and>
    status_code r \<noteq> 401 \<and> finish r = Inl err \<longrightarrow>
      logout srv s = (Inl err, s1) \<and>
      access_token s1 = access_token s \<and> refresh_token s1 = refresh_token s) \<and>
   (truthy (refresh_token s) \<and> session_request srv (logout_request s) s = (Response r, s1) \<and>
    status_code r \<noteq> 401 \<and> finish r = Inr v \<longrightarrow>
      logout srv s = (Inr (), clear_tokens s1)) \<and>
   (truthy (refresh_token s) \<and> session_request srv (logout_request s) s = (Response r, s1) \<and>
    status_code r = 401 \<and> refresh_access_token srv s1 = (Inl err, s2) \<longrightarrow>
      logout srv s = (Inl err, clear_tokens s2))"
  (is "?A \<and> ?B \<and> ?C \<and> ?D \<and> ?E \<and> ?F")
proof -
  let ?data = "Some [(''refreshToken'', refresh_token s)]"
  have A: ?A by (simp add: logout_def clear_tokens_fields)
  have st: "snd (logout srv s) = snd (request srv ''POST'' ''/api/auth/logout'' ?data None True s) \<or>
      snd (logout srv s) = clear_tokens (snd (request srv ''POST'' ''/api/auth/logout'' ?data None True s))"
    if "truthy (refresh_token s)"
    using that by (simp add: logout_def split: prod.splits sum.splits)
  have B: ?B
    using st request_sent_first[of srv "''POST''" "''/api/auth/logout''" ?data None True s]
    by (auto simp: logout_request_def clear_tokens_fields)
  have C: ?C
  proof (intro impI, elim conjE)
    assume t: "truthy (refresh_token s)"
      and sr: "session_request srv (logout_request s) s = (RequestException x, s1)"
    from sr have "request srv ''POST'' ''/api/auth/logout'' ?data None True s = (Inl (request_failed x), s1)"
      unfolding logout_request_def by (rule request_transport_failure)
    with t session_request_fields(2,3)[OF sr]
    show "logout srv s = (Inl (request_failed x), s1) \<and>
      access_token s1 = access_token s \<and> refresh_token s1 = refresh_token s"
      by (simp add: logout_def)
  qed
  have direct: "request srv ''POST'' ''/api/auth/logout'' ?data None True s = (finish r, s1)"
    if "session_request srv (logout_request s) s = (Response r, s1)" "status_code r \<noteq> 401"
    using that unfolding logout_request_def by (intro request_direct) simp_all
  have D: ?D
  proof (intro impI, elim conjE)
    assume t: "truthy (refresh_token s)"
      and sr: "session_request srv (logout_request s) s = (Response r, s1)"
      and n: "status_code r \<noteq> 401" and f: "finish r = Inl err"
    from t direct[OF sr n] f session_request_fields(2,3)[OF sr]
    show "logout srv s = (Inl err, s1) \<and>
      access_token s1 = access_token s \<and> refresh_token s1 = refresh_token s"
      by (simp add: logout_def)
  qed
  have E: ?E
  proof (intro impI, elim conjE)
    assume t: "truthy (refresh_token s)"
      and sr: "session_request srv (logout_request s) s = (Response r, s1)"
      and n: "status_code r \<noteq> 401" and f: "finish r = Inr v"
    from t direct[OF sr n] f show "logout srv s = (Inr (), clear_tokens s1)"
      by (simp add: logout_def)
  qed
  have F: ?F
  proof (intro impI, elim conjE)
    assume t: "truthy (refresh_token s)"
      and sr: "session_request srv (logout_request s) s = (Response r, s1)"
      and u: "status_code r = 401" and rf: "refresh_access_token srv s1 = (Inl err, s2)"
    from t session_request_fields(3)[OF sr] have t1: "truthy (refresh_token s1)" by simp
    have "request srv ''POST'' ''/api/auth/logout'' ?data None True s = (Inl err, clear_tokens s2)"
      using sr u t1 rf unfolding logout_request_def by (intro request_refresh_failed) simp_all
    with t show "logout srv s = (Inl err, clear_tokens s2)"
      by (simp add: logout_def)
  qed
  from A B C D E F show ?thesis by blast
qed

theorem logout_behaviour_witness:
  "\<not> truthy (refresh_token (logged_out [Response (plain_response 403)])) \<and>
   logout scripted (logged_out [Response (plain_response 403)]) =
     (Inr (), logged_out [Response (plain_response 403)]) \<and>
   truthy (refresh_token (logged_in [Response (plain_response 403)])) \<and>
   session_request scripted (logout_request (logged_in [Response (plain_response 403)]))
     (logged_in [Response (plain_response 403)]) =
       (Response (plain_response 403), (logged_in [])\<lparr> sent := [logout_request (logged_in [])] \<rparr>) \<and>
   status_code (plain_response 403) \<noteq> 401 \<and>
   finish (plain_response 403) = Inl (HSEAPIError Generic (JStr ''oops'') (Some 403) JNull) \<and>
   logout scripted (logged_in [Response (plain_response 403)]) =
     (Inl (HSEAPIError Generic (JStr ''oops'') (Some 403) JNull),
      (logged_in [])\<lparr> sent := [logout_request (logged_in [])] \<rparr>) \<and>
   session_request scripted (logout_request (logged_in [])) (logged_in []) =
     (RequestException ''connection refused'', (logged_in [])\<lparr> sent := [logout_request (logged_in [])] \<rparr>) \<and>
   logout scripted (logged_in []) =
     (Inl (request_failed ''connection refused''),
      (logged_in [])\<lparr> sent := [logout_request (logged_in [])] \<rparr>) \<and>
   finish token_response = Inr (JObj [(''accessToken'', JStr ''A''), (''refreshToken'', JStr ''R'')]) \<and>
   logout scripted (logged_in [Response token_response]) =
     (Inr (), (logged_in [])\<lparr> access_token := JNull, refresh_token := JNull,
        sent := [logout_request (logged_in [])] \<rparr>) \<and>
   session_request scripted (logout_request (logged_in refresh_rejected_after_401))
     (logged_in refresh_rejected_after_401) =
       (Response (plain_response 401),
        (logged_in [Response expired_response])\<lparr> sent := [logout_request (logged_in [])] \<rparr>) \<and>
   refresh_access_token scripted
     ((logged_in [Response expired_response])\<lparr> sent := [logout_request (logged_in [])] \<rparr>) =
       (Inl (handle_error expired_response),
        (logged_in [])\<lparr> sent := [logout_request (logged_in []), refresh_request (logged_in [])] \<rparr>) \<and>
   logout scripted (logged_in refresh_rejected_after_401) =
     (Inl (handle_error expired_response),
      (logged_in [])\<lparr> access_token := JNull, refresh_token := JNull,
        sent := [logout_request (logged_in []), refresh_request (logged_in [])] \<rparr>)"
  using logout_behaviour [where s = "logged_out [Response (plain_response 403)]" and srv = scripted
      and r = "plain_response 403" and ?s1.0 = "logged_in []" and ?s2.0 = "logged_in []"]
    logout_behaviour [where s = "logged_in [Response (plain_response 403)]" and srv = scripted
      and r = "plain_response 403"
      and ?s1.0 = "(logged_in [])\<lparr> sent := [logout_request (logged_in [])] \<rparr>"
      and err = "HSEAPIError Generic (JStr ''oops'') (Some 403) JNull" and ?s2.0 = "logged_in []"]
    logout_behaviour [where s = "logged_in []" and srv = scripted
      and x = "''connection refused''"
      and ?s1.0 = "(logged_in [])\<lparr> sent := [logout_request (logged_in [])] \<rparr>"
      and r = "plain_response 403" and ?s2.0 = "logged_in []"]
    logout_behaviour [where s = "logged_in [Response token_response]" and srv = scripted
      and r = token_response
      and v = "JObj [(''accessToken'', JStr ''A''), (''refreshToken'', JStr ''R'')]"
      and ?s1.0 = "(logged_in [])\<lparr> sent := [logout_request (logged_in [])] \<rparr>"
      and ?s2.0 = "logged_in []"]
    logout_behaviour [where s = "logged_in refresh_rejected_after_401" and srv = scripted
      and r = "plain_response 401"
      and ?s1.0 = "(logged_in [Response expired_response])\<lparr> sent := [logout_request (logged_in [])] \<rparr>"
      and err = "handle_error expired_response"
      and ?s2.0 = "(logged_in [])\<lparr> sent := [logout_request (logged_in []), refresh_request (logged_in [])] \<rparr>"]
  by (simp add: request_defs scripted_def logged_in_def logged_out_def init_def rstrip_slash_def
        plain_response_def token_response_def expired_response_def
        refresh_rejected_after_401_def logout_request_def refresh_request_def logout_def)

section \<open>Consistency of the token pair\<close>

lemma paired_session_request:
  "session_request srv rq s = (out, s1) \<Longrightarrow> paired s1 = paired s"
  by (auto simp: session_request_def paired_def split: prod.splits)

lemma paired_clear_tokens: "paired (clear_tokens s)"
  by (simp add: paired_def clear_tokens_def)

lemma finish_good:
  assumes "non_null_tokens srv" and "session_request srv rq s = (Response r, s1)"
    and "finish r = Inr v"
  shows "good_object v"
proof -
  from assms(2) obtain w' where srv: "srv rq (world s) = (Response r, w')"
    by (auto simp: session_request_def split: prod.splits)
  show ?thesis
    unfolding good_object_def
  proof (intro allI impI)
    fix kvs assume "v = JObj kvs"
    with assms(3) have "json_body r = Inr (JObj kvs)"
      by (auto simp: finish_def split: if_splits sum.splits)
    with assms(1) srv show "map_of kvs ''accessToken'' \<noteq> Some JNull \<and>
        map_of kvs ''refreshToken'' \<noteq> Some JNull"
      unfolding non_null_tokens_def by blast
  qed
qed

lemma paired_store_tokens:
  "good_object v \<Longrightarrow> paired s \<Longrightarrow> paired (snd (store_tokens v s))"
  by (cases v)
     (auto simp: store_tokens_def good_object_def paired_def set_tokens_fields
           split: option.splits)

lemma paired_refresh:
  assumes "non_null_tokens srv" and "paired s"
  shows "paired (snd (refresh_access_token srv s))"
proof (cases "truthy (refresh_token s)")
  case False
  with assms(2) show ?thesis by (simp add: refresh_absent)
next
  case True
  obtain out s1 where sr: "session_request srv (refresh_request s) s = (out, s1)"
    by (cases "session_request srv (refresh_request s) s")
  from paired_session_request[OF sr] assms(2) have p1: "paired s1" by simp
  show ?thesis
  proof (cases out)
    case (RequestException x)
    with True sr p1 show ?thesis by (simp add: refresh_unfold)
  next
    case (Response r)
    show ?thesis
    proof (cases "finish r")
      case (Inl err)
      with True sr p1 Response show ?thesis by (simp add: refresh_unfold)
    next
      case (Inr v)
      from finish_good[OF assms(1) sr[unfolded Response] Inr] have g: "good_object v" .
      have "snd (refresh_access_token srv s) = snd (store_tokens v s1)"
        using True sr Response Inr
        by (simp add: refresh_unfold store_tokens_def split: sum.splits)
      with paired_store_tokens[OF g p1] show ?thesis by simp
    qed
  qed
qed

lemma paired_request:
  assumes nn: "non_null_tokens srv" and ps: "paired s"
  shows "paired (snd (request srv m e d p retry s)) \<and>
    (\<forall>v. fst (request srv m e d p retry s) = Inr v \<longrightarrow> good_object v)"
proof -
  obtain out s1 where sr: "session_request srv (mk_request s m e d p) s = (out, s1)"
    by (cases "session_request srv (mk_request s m e d p) s")
  from paired_session_request[OF sr] ps have p1: "paired s1" by simp
  show ?thesis
  proof (cases out)
    case (RequestException x)
    with sr p1 show ?thesis by (simp add: request_transport_failure)
  next
    case (Response r)
    note sr' = sr[unfolded Response]
    show ?thesis
    proof (cases "status_code r = 401 \<and> retry \<and> truthy (refresh_token s1)")
      case False
      with sr' have "request srv m e d p retry s = (finish r, s1)"
        by (simp add: request_direct)
      with p1 finish_good[OF nn sr'] show ?thesis by simp
    next
      case True
      obtain res s2 where rf: "refresh_access_token srv s1 = (res, s2)"
        by (cases "refresh_access_token srv s1")
      from paired_refresh[OF nn p1, of ] rf have p2: "paired s2" by simp
      show ?thesis
      proof (cases res)
        case (Inl err)
        with sr' True rf have "request srv m e d p retry s = (Inl err, clear_tokens s2)"
          by (simp add: request_refresh_failed)
        then show ?thesis by (simp add: paired_clear_tokens)
      next
        case (Inr u)
        obtain out2 s3 where sr2: "session_request srv (mk_request s2 m e d p) s2 = (out2, s3)"
          by (cases "session_request srv (mk_request s2 m e d p) s2")
        from paired_session_request[OF sr2] p2 have p3: "paired s3" by simp
        show ?thesis
        proof (cases out2)
          case (RequestException x)
          with sr' True rf Inr sr2
          have "request srv m e d p retry s = (Inl (request_failed x), clear_tokens s3)"
            by (simp add: request_resend_failure)
          then show ?thesis by (simp add: paired_clear_tokens)
        next
          case (Response r2)
          note sr2' = sr2[unfolded Response]
          from sr' True rf Inr sr2' have "request srv m e d p retry s = (finish r2, s3)"
            by (simp add: request_resend)
          with p3 finish_good[OF nn sr2'] show ?thesis by simp
        qed
      qed
    qed
  qed
qed

lemma paired_after_store:
  assumes "non_null_tokens srv" and "paired s"
  shows "paired (snd (case request srv m e d p retry s of
            (Inl err, s1) \<Rightarrow> (Inl err, s1)
          | (Inr result, s1) \<Rightarrow> store_tokens result s1))"
proof -
  obtain res s1 where rq: "request srv m e d p retry s = (res, s1)"
    by (cases "request srv m e d p retry s")
  from paired_request[OF assms, of m e d p retry] rq
  have p1: "paired s1" and g: "\<And>v. res = Inr v \<Longrightarrow> good_object v" by simp_all
  show ?thesis
    using rq p1 g by (cases res) (simp_all add: paired_store_tokens)
qed

lemma non_null_always: "non_null_tokens (always (Response token_response))"
  by (auto simp: non_null_tokens_def always_def token_response_def)

text \<open>
  C5, as stated, fails at construction: a client constructed with an initial access token
  has the access token set and the refresh token absent.
\<close>

theorem initial_access_token_alone_counterexample:
  "access_token (init ''http://localhost:3001'' (Some ''A0'') 30 3 False ()) = JStr ''A0'' \<and>
   refresh_token (init ''http://localhost:3001'' (Some ''A0'') 30 3 False ()) = JNull"
  by (simp add: init_def)

text \<open>
  C5, amended. A client constructed without an initial access token has a consistent token
  pair (both absent); one constructed with an initial access token has the access token set
  and the refresh token absent. \<^verbatim>\<open>clear_tokens\<close> always leaves a consistent pair, and
  so does \<^verbatim>\<open>set_tokens\<close> with two present tokens. Against a remote side that returns no
  null tokens, \<^verbatim>\<open>login\<close>, \<^verbatim>\<open>signup\<close>, the refresh cycle, \<^verbatim>\<open>logout\<close> and every
  dispatcher call take a consistent pair to a consistent pair.
\<close>

theorem token_pair_consistent:
  "paired (init url' None t' n' cb w) \<and>
   access_token (init url' (Some a0) t' n' cb w) = JStr a0 \<and>
   refresh_token (init url' (Some a0) t' n' cb w) = JNull \<and>
   paired (clear_tokens s) \<and>
   (a \<noteq> JNull \<and> b \<noteq> JNull \<longrightarrow> paired (set_tokens (AuthTokens a b) s)) \<and>
   (non_null_tokens srv \<and> paired s \<longrightarrow>
      paired (snd (login srv email password s)) \<and>
      paired (snd (signup srv name email password org s)) \<and>
      paired (snd (refresh_access_token srv s)) \<and>
      paired (snd (logout srv s)) \<and>
      paired (snd (request srv m e d p retry s)))"
proof -
  have init: "paired (init url' None t' n' cb w)"
    by (simp add: paired_def init_def)
  have set: "paired (set_tokens (AuthTokens a b) s)" if "a \<noteq> JNull" "b \<noteq> JNull"
    using that by (simp add: paired_def set_tokens_fields)
  have ops: "paired (snd (login srv email password s)) \<and>
      paired (snd (signup srv name email password org s)) \<and>
      paired (snd (refresh_access_token srv s)) \<and>
      paired (snd (logout srv s)) \<and>
      paired (snd (request srv m e d p retry s))"
    if nn: "non_null_tokens srv" and ps: "paired s"
  proof -
    have "paired (snd (login srv email password s))"
      unfolding login_def Let_def by (rule paired_after_store[OF nn ps])
    moreover have "paired (snd (signup srv name email password org s))"
      unfolding signup_def Let_def by (rule paired_after_store[OF nn ps])
    moreover have "paired (snd (refresh_access_token srv s))"
      by (rule paired_refresh[OF nn ps])
    moreover have "paired (snd (logout srv s))"
    proof (cases "truthy (refresh_token s)")
      case False
      then show ?thesis by (simp add: logout_def paired_clear_tokens)
    next
      case True
      obtain res s1 where rq: "request srv ''POST'' ''/api/auth/logout''
          (Some [(''refreshToken'', refresh_token s)]) None True s = (res, s1)"
        by (cases "request srv ''POST'' ''/api/auth/logout''
          (Some [(''refreshToken'', refresh_token s)]) None True s")
      from paired_request[OF nn ps, of "''POST''" "''/api/auth/logout''"
          "Some [(''refreshToken'', refresh_token s)]" None True] rq
      have "paired s1" by simp
      with True rq show ?thesis
        by (cases res) (simp_all add: logout_def paired_clear_tokens)
    qed
    moreover have "paired (snd (request srv m e d p retry s))"
      using paired_request[OF nn ps] by simp
    ultimately show ?thesis by simp
  qed
  from init set ops show ?thesis
    by (simp add: paired_clear_tokens init_def)
qed

theorem token_pair_consistent_witness:
  "JStr ''A'' \<noteq> JNull \<and> JStr ''R'' \<noteq> JNull \<and>
   paired (set_tokens (AuthTokens (JStr ''A'') (JStr ''R'')) (logged_out ())) \<and>
   non_null_tokens (always (Response token_response)) \<and> paired (logged_out ()) \<and>
   paired (snd (login (always (Response token_response)) ''admin@example.com'' ''password123''
     (logged_out ()))) \<and>
   access_token (snd (login (always (Response token_response)) ''admin@example.com'' ''password123''
     (logged_out ()))) = JStr ''A'' \<and>
   refresh_token (snd (login (always (Response token_response)) ''admin@example.com'' ''password123''
     (logged_out ()))) = JStr ''R'' \<and>
   paired (snd (logout (always (Response token_response)) (logged_in ())))"
  using token_pair_consistent [where a = "JStr ''A''" and b = "JStr ''R''" and s = "logged_out ()"
      and srv = "always (Response token_response)" and email = "''admin@example.com''"
      and password = "''password123''"]
    token_pair_consistent [where a = "JStr ''A''" and b = "JStr ''R''" and s = "logged_in ()"
      and srv = "always (Response token_response)"]
    non_null_always
  by (simp add: request_defs logged_out_def logged_in_def init_def rstrip_slash_def
        token_response_def login_def store_tokens_def always_def paired_def)

end
